theory Spec2Isabelle
  imports Complex_Main "HOL-Library.Char_ord" "HOL-Library.List_Lexorder" "HOL-Library.AList"
begin

section \<open>Python values used by scripts/utils/parser.py\<close>

text \<open>
  The parser works on the cells that \<^verbatim>\<open>CalamineWorkbook.to_python()\<close> returns: strings,
  integers, floats, booleans, dates, datetimes, times and timedeltas; the helpers also
  accept \<^verbatim>\<open>None\<close>. Strings are modelled as ASCII character lists.

  A float cell is represented by its Python \<^verbatim>\<open>repr\<close> (for example \<^verbatim>\<open>CFloat ''5.0''\<close>,
  \<^verbatim>\<open>CFloat ''nan''\<close>): the repr determines the double, \<^verbatim>\<open>str\<close> of the cell is that
  text, and \<^verbatim>\<open>float\<close> of that text is the cell's value again.
\<close>

datatype msg =
    Unparseable
  | NoRankSheets "string list"
  | PrimarySheetEmpty
  | MissingColumns "string list"
  | NoDateColumns

datatype py_error = ValueError msg | TypeError | IndexError | OverflowError

datatype cell =
    CNone
  | CStr string
  | CInt int
  | CFloat string
  | CBool bool
  | CDate nat nat nat
  | CDateTime nat nat nat nat nat nat nat
  | CTime nat nat nat nat
  | CTimedelta int nat nat

datatype pyfloat = FNan | FInf bool | FFin rat

definition ebind :: "py_error + 'a \<Rightarrow> ('a \<Rightarrow> py_error + 'b) \<Rightarrow> py_error + 'b" where
  "ebind m f = (case m of Inl e \<Rightarrow> Inl e | Inr v \<Rightarrow> f v)"

text \<open>\<^verbatim>\<open>try: body except (ValueError, TypeError): handler\<close>; any other exception propagates.\<close>

definition except_value_type :: "py_error + 'a \<Rightarrow> py_error + 'a \<Rightarrow> py_error + 'a" where
  "except_value_type body handler =
     (case body of
        Inl (ValueError m) \<Rightarrow> handler
      | Inl TypeError \<Rightarrow> handler
      | Inl e \<Rightarrow> Inl e
      | Inr v \<Rightarrow> Inr v)"

subsection \<open>Strings\<close>

definition is_space :: "char \<Rightarrow> bool" where
  "is_space c = (let n = (of_char c :: nat) in (9 \<le> n \<and> n \<le> 13) \<or> (28 \<le> n \<and> n \<le> 32))"

definition py_strip :: "string \<Rightarrow> string" where
  "py_strip s = rev (dropWhile is_space (rev (dropWhile is_space s)))"

definition upper_char :: "char \<Rightarrow> char" where
  "upper_char c = (let n = (of_char c :: nat) in if 97 \<le> n \<and> n \<le> 122 then char_of (n - 32) else c)"

definition lower_char :: "char \<Rightarrow> char" where
  "lower_char c = (let n = (of_char c :: nat) in if 65 \<le> n \<and> n \<le> 90 then char_of (n + 32) else c)"

definition py_upper :: "string \<Rightarrow> string" where
  "py_upper s = map upper_char s"

definition py_lower :: "string \<Rightarrow> string" where
  "py_lower s = map lower_char s"

definition endswith :: "string \<Rightarrow> string \<Rightarrow> bool" where
  "endswith s suffix = (length suffix \<le> length s \<and> drop (length s - length suffix) s = suffix)"

definition is_digit :: "char \<Rightarrow> bool" where
  "is_digit c = (c \<in> set ''0123456789'')"

definition digit_val :: "char \<Rightarrow> nat" where
  "digit_val c = of_char c - 48"

definition digit_char :: "nat \<Rightarrow> char" where
  "digit_char n = ''0123456789'' ! (n mod 10)"

fun str_nat :: "nat \<Rightarrow> string" where
  "str_nat n = (if n < 10 then [digit_char n] else str_nat (n div 10) @ [digit_char (n mod 10)])"

declare str_nat.simps [simp del]

definition str_int :: "int \<Rightarrow> string" where
  "str_int i = (if i < 0 then CHR ''-'' # str_nat (nat (- i)) else str_nat (nat i))"

text \<open>\<^verbatim>\<open>%02d\<close>, \<^verbatim>\<open>%04d\<close> and \<^verbatim>\<open>%06d\<close>: zero padding to a minimal width.\<close>

definition zero_pad :: "nat \<Rightarrow> nat \<Rightarrow> string" where
  "zero_pad w n = (let s = str_nat n in replicate (w - length s) CHR ''0'' @ s)"

subsection \<open>\<^verbatim>\<open>str\<close> of a cell\<close>

definition iso_date :: "nat \<Rightarrow> nat \<Rightarrow> nat \<Rightarrow> string" where
  "iso_date y m d = zero_pad 4 y @ ''-'' @ zero_pad 2 m @ ''-'' @ zero_pad 2 d"

definition iso_time :: "nat \<Rightarrow> nat \<Rightarrow> nat \<Rightarrow> nat \<Rightarrow> string" where
  "iso_time hh mm ss us =
     zero_pad 2 hh @ '':'' @ zero_pad 2 mm @ '':'' @ zero_pad 2 ss
       @ (if us = 0 then [] else ''.'' @ zero_pad 6 us)"

definition str_timedelta :: "int \<Rightarrow> nat \<Rightarrow> nat \<Rightarrow> string" where
  "str_timedelta days secs us =
     (if days = 0 then []
      else str_int days @ '' day'' @ (if \<bar>days\<bar> \<noteq> 1 then ''s'' else []) @ '', '')
       @ str_nat (secs div 3600) @ '':'' @ zero_pad 2 (secs div 60 mod 60) @ '':''
       @ zero_pad 2 (secs mod 60)
       @ (if us = 0 then [] else ''.'' @ zero_pad 6 us)"

fun py_str :: "cell \<Rightarrow> string" where
  "py_str CNone = ''None''"
| "py_str (CStr s) = s"
| "py_str (CInt i) = str_int i"
| "py_str (CFloat r) = r"
| "py_str (CBool b) = (if b then ''True'' else ''False'')"
| "py_str (CDate y m d) = iso_date y m d"
| "py_str (CDateTime y m d hh mm ss us) = iso_date y m d @ '' '' @ iso_time hh mm ss us"
| "py_str (CTime hh mm ss us) = iso_time hh mm ss us"
| "py_str (CTimedelta days secs us) = str_timedelta days secs us"

subsection \<open>\<^verbatim>\<open>float\<close> and \<^verbatim>\<open>int\<close>\<close>

text \<open>
  Rounding of a rational to the nearest IEEE 754 double, ties to even, with overflow to
  infinity (what \<^verbatim>\<open>float\<close> does with a decimal literal).
\<close>

fun bit_len :: "nat \<Rightarrow> nat" where
  "bit_len n = (if n = 0 then 0 else Suc (bit_len (n div 2)))"

declare bit_len.simps [simp del]

definition pow2 :: "int \<Rightarrow> rat" where
  "pow2 e = (if 0 \<le> e then 2 ^ nat e else 1 / 2 ^ nat (- e))"

definition round_half_even :: "rat \<Rightarrow> int" where
  "round_half_even q =
     (let f = \<lfloor>q\<rfloor>; r = q - of_int f
      in if r < 1 / 2 then f else if 1 / 2 < r then f + 1 else if even f then f else f + 1)"

definition floor_log2 :: "rat \<Rightarrow> int" where
  "floor_log2 a =
     (let (n, d) = quotient_of a;
          k = int (bit_len (nat n)) - int (bit_len (nat d))
      in if pow2 k \<le> a then k else k - 1)"

definition round_double :: "rat \<Rightarrow> pyfloat" where
  "round_double q =
     (if q = 0 then FFin 0
      else let a = \<bar>q\<bar>;
               e = max (floor_log2 a) (- 1022);
               m = round_half_even (a / pow2 (e - 52))
           in if 1023 < e \<or> (e = 1023 \<and> 2 ^ 53 \<le> m) then FInf (q < 0)
              else FFin (sgn q * of_int m * pow2 (e - 52)))"

text \<open>
  The decimal literals \<^verbatim>\<open>float\<close> accepts: digits with single underscores between them,
  an optional fraction and an optional exponent.
\<close>

fun digitpart :: "string \<Rightarrow> nat list option" where
  "digitpart [] = None"
| "digitpart [c] = (if is_digit c then Some [digit_val c] else None)"
| "digitpart (c # d # cs) =
     (if is_digit c
      then map_option (Cons (digit_val c)) (if d = CHR ''_'' then digitpart cs else digitpart (d # cs))
      else None)"

definition opt_digitpart :: "string \<Rightarrow> nat list option" where
  "opt_digitpart s = (if s = [] then Some [] else digitpart s)"

definition nat_of_digits :: "nat list \<Rightarrow> nat" where
  "nat_of_digits ds = foldl (\<lambda>a d. 10 * a + d) 0 ds"

definition is_sign :: "char \<Rightarrow> bool" where
  "is_sign c = (c = CHR ''+'' \<or> c = CHR ''-'')"

definition parse_exponent :: "string \<Rightarrow> int option" where
  "parse_exponent s =
     (if s = [] then Some 0
      else let t = tl s;
               neg = (t \<noteq> [] \<and> hd t = CHR ''-'');
               ds = (if t \<noteq> [] \<and> is_sign (hd t) then tl t else t)
           in map_option (\<lambda>v. if neg then - int (nat_of_digits v) else int (nat_of_digits v))
                (digitpart ds))"

definition parse_decimal :: "string \<Rightarrow> rat option" where
  "parse_decimal s =
     (let not_e = (\<lambda>c. c \<noteq> CHR ''e'' \<and> c \<noteq> CHR ''E'');
          mant = takeWhile not_e s;
          ipart = takeWhile (\<lambda>c. c \<noteq> CHR ''.'') mant;
          rest = dropWhile (\<lambda>c. c \<noteq> CHR ''.'') mant;
          fpart = (if rest = [] then [] else tl rest)
      in if ipart = [] \<and> fpart = [] then None
         else case (opt_digitpart ipart, opt_digitpart fpart, parse_exponent (dropWhile not_e s)) of
                (Some ids, Some fds, Some ex) \<Rightarrow>
                  (let m = of_nat (nat_of_digits (ids @ fds));
                       p = ex - int (length fds)
                   in Some (if 0 \<le> p then m * 10 ^ nat p else m / 10 ^ nat (- p)))
              | _ \<Rightarrow> None)"

definition py_float_of_str :: "string \<Rightarrow> py_error + pyfloat" where
  "py_float_of_str s0 =
     (let s = py_strip s0;
          neg = (s \<noteq> [] \<and> hd s = CHR ''-'');
          body = (if s \<noteq> [] \<and> is_sign (hd s) then tl s else s);
          low = py_lower body
      in if low = ''inf'' \<or> low = ''infinity'' then Inr (FInf neg)
         else if low = ''nan'' then Inr FNan
         else case parse_decimal body of
                None \<Rightarrow> Inl (ValueError Unparseable)
              | Some q \<Rightarrow> Inr (round_double (if neg then - q else q)))"

text \<open>\<^verbatim>\<open>float(val)\<close> on a cell.\<close>

fun py_float :: "cell \<Rightarrow> py_error + pyfloat" where
  "py_float (CStr s) = py_float_of_str s"
| "py_float (CFloat r) = py_float_of_str r"
| "py_float (CInt i) =
     (case round_double (of_int i) of FInf b \<Rightarrow> Inl OverflowError | x \<Rightarrow> Inr x)"
| "py_float (CBool b) = Inr (FFin (if b then 1 else 0))"
| "py_float c = Inl TypeError"

text \<open>\<^verbatim>\<open>int(x)\<close> on a float: truncation towards zero; infinities and NaN raise.\<close>

fun py_int_of_float :: "pyfloat \<Rightarrow> py_error + int" where
  "py_int_of_float FNan = Inl (ValueError Unparseable)"
| "py_int_of_float (FInf b) = Inl OverflowError"
| "py_int_of_float (FFin q) = Inr (if 0 \<le> q then \<lfloor>q\<rfloor> else - \<lfloor>- q\<rfloor>)"

text \<open>\<^verbatim>\<open>isinstance(val, float) and (val != val)\<close>\<close>

fun is_nan :: "cell \<Rightarrow> bool" where
  "is_nan (CFloat r) = (py_float_of_str r = Inr FNan)"
| "is_nan c = False"

section \<open>Helpers\<close>

definition safe_str :: "cell \<Rightarrow> string" where
  "safe_str val =
     (if val = CNone then []
      else if is_nan val then []
      else py_strip (py_str val))"

definition safe_numeric :: "cell \<Rightarrow> py_error + pyfloat option" where
  "safe_numeric val =
     (if val = CNone then Inr None
      else if is_nan val then Inr None
      else except_value_type (ebind (py_float val) (\<lambda>f. Inr (Some f))) (Inr None))"

definition safe_int :: "cell \<Rightarrow> py_error + int option" where
  "safe_int val =
     (if val = CNone then Inr None
      else if is_nan val then Inr None
      else except_value_type
             (ebind (py_float val) (\<lambda>f. ebind (py_int_of_float f) (\<lambda>i. Inr (Some i))))
             (Inr None))"

definition parse_rank_value :: "cell \<Rightarrow> py_error + (int option \<times> bool)" where
  "parse_rank_value val =
     (if val = CNone \<or> val = CStr [] then Inr (None, False)
      else if is_nan val then Inr (None, False)
      else let val_str = py_strip (py_str val)
           in if val_str = [] then Inr (None, False)
              else if endswith val_str ''+'' then Inr (None, True)
              else except_value_type
                     (ebind (py_float_of_str val_str) (\<lambda>f.
                      ebind (py_int_of_float f) (\<lambda>rank.
                        if 1 \<le> rank \<and> rank \<le> 306 then Inr (Some rank, False)
                        else Inr (None, True))))
                     (Inr (None, False)))"

section \<open>Date columns\<close>

text \<open>
  \<^verbatim>\<open>DATE_PATTERN = re.compile(r'^\d{4}-\d{2}-\d{2}$')\<close>, used with \<^verbatim>\<open>match\<close>. In Python
  \<^verbatim>\<open>$\<close> also matches just before a newline that ends the string.
\<close>

definition date10 :: "string \<Rightarrow> bool" where
  "date10 s =
     (length s = 10 \<and> is_digit (s ! 0) \<and> is_digit (s ! 1) \<and> is_digit (s ! 2) \<and> is_digit (s ! 3)
      \<and> s ! 4 = CHR ''-'' \<and> is_digit (s ! 5) \<and> is_digit (s ! 6)
      \<and> s ! 7 = CHR ''-'' \<and> is_digit (s ! 8) \<and> is_digit (s ! 9))"

definition DATE_PATTERN_match :: "string \<Rightarrow> bool" where
  "DATE_PATTERN_match s = (date10 s \<or> (length s = 11 \<and> last s = CHR 0x0A \<and> date10 (butlast s)))"

text \<open>
  \<^verbatim>\<open>hasattr(col, 'strftime')\<close> holds for dates, datetimes and times.
  \<^verbatim>\<open>col.strftime('%Y-%m-%d')\<close>: the C library's \<^verbatim>\<open>%Y\<close> does not pad the year (years from
  1000 on, the only ones a spreadsheet date can have, are four digits either way); a time
  has the date 1900-01-01.
\<close>

fun has_strftime :: "cell \<Rightarrow> bool" where
  "has_strftime (CDate y m d) = True"
| "has_strftime (CDateTime y m d hh mm ss us) = True"
| "has_strftime (CTime hh mm ss us) = True"
| "has_strftime c = False"

definition strftime_ymd :: "nat \<Rightarrow> nat \<Rightarrow> nat \<Rightarrow> string" where
  "strftime_ymd y m d = str_nat y @ ''-'' @ zero_pad 2 m @ ''-'' @ zero_pad 2 d"

fun strftime :: "cell \<Rightarrow> string" where
  "strftime (CDate y m d) = strftime_ymd y m d"
| "strftime (CDateTime y m d hh mm ss us) = strftime_ymd y m d"
| "strftime (CTime hh mm ss us) = ''1900-01-01''"
| "strftime c = []"

text \<open>The body of the loop of \<^verbatim>\<open>detect_date_columns\<close>: the value of \<^verbatim>\<open>normalized\<close>.\<close>

definition normalize_col :: "cell \<Rightarrow> string option" where
  "normalize_col col =
     (let col_str = py_strip (py_str col)
      in if DATE_PATTERN_match col_str then Some col_str
         else if has_strftime col then Some (strftime col)
         else if 10 \<le> length col_str \<and> DATE_PATTERN_match (take 10 col_str)
              then Some (take 10 col_str)
         else None)"

fun detect_loop :: "cell list \<Rightarrow> string list \<times> (string \<times> cell) list \<Rightarrow> string list \<times> (string \<times> cell) list" where
  "detect_loop [] acc = acc"
| "detect_loop (col # cols) (date_strs, col_map) =
     (case normalize_col col of
        Some normalized \<Rightarrow>
          (if normalized \<noteq> []
           then detect_loop cols (date_strs @ [normalized], AList.update normalized col col_map)
           else detect_loop cols (date_strs, col_map))
      | None \<Rightarrow> detect_loop cols (date_strs, col_map))"

definition detect_date_columns :: "cell list \<Rightarrow> string list \<times> (string \<times> cell) list" where
  "detect_date_columns columns = detect_loop columns ([], [])"

section \<open>The main parser\<close>

type_synonym row = "cell list"
type_synonym sheet = "row list"
type_synonym workbook = "(string \<times> sheet) list"

record kw_record =
  marketplace_id :: string
  child_asin :: string
  keyword :: string
  sku :: "string option"
  title :: "string option"
  tracked :: bool
  sales :: "pyfloat option"
  acos :: "pyfloat option"
  conversion :: "pyfloat option"
  spent :: "pyfloat option"
  orders :: "int option"
  units :: "int option"
  clicks :: "int option"
  query_volume :: "int option"
  conversion_delta :: "pyfloat option"
  market_conversion :: "pyfloat option"
  asin_conversion :: "pyfloat option"
  purchase_share :: "pyfloat option"
  metrics_period_start :: "string option"
  metrics_period_end :: "string option"
  import_id :: string
  updated_at :: string

record rank_record =
  asin :: string
  rank_keyword :: string
  date :: string
  organic_rank :: "int option"
  organic_out_of_range :: bool
  sponsored_rank :: "int option"
  sponsored_out_of_range :: bool

record stats =
  keyword_count :: nat
  keyword_total_parsed :: nat
  keyword_filtered :: nat
  rank_entries :: nat
  organic_ranks :: nat
  sponsored_ranks :: nat
  date_range_start :: "string option"
  date_range_end :: "string option"
  date_count :: nat

type_synonym kw_key = "string \<times> string"
type_synonym rank_key = "string \<times> string \<times> string"
type_synonym keyword_map = "(kw_key \<times> kw_record) list"
type_synonym rank_map = "(rank_key \<times> rank_record) list"

text \<open>
  The local variables of \<^verbatim>\<open>parse_excel\<close> that its two loops read. The clock is a
  parameter of the first loop: \<^verbatim>\<open>clock n\<close> is what the call number \<^verbatim>\<open>n\<close> of
  \<^verbatim>\<open>datetime.utcnow().isoformat()\<close> returns. A Python dict is an association list in
  insertion order: \<^verbatim>\<open>d[k] = v\<close> is
  \<^const>\<open>AList.update\<close> (the value replaced in place, or the pair appended) and
  \<^verbatim>\<open>d.get(k)\<close> is \<^const>\<open>map_of\<close>.
\<close>

record env =
  col_indices :: "(string \<times> nat) list"
  date_col_map :: "(string \<times> cell) list"
  sorted_dates :: "string list"
  env_marketplace_id :: string
  env_import_id :: string

definition FIXED_COLUMNS :: "string list" where
  "FIXED_COLUMNS =
     [''ASIN'', ''SKU'', ''Title'', ''Keyword'', ''Tracked'',
      ''Sales'', ''ACOS'', ''Conversion'', ''Spent'', ''Orders'',
      ''Units'', ''Clicks'', ''Query Volume'', ''Conversion Delta'',
      ''Market Conversion'', ''Asin Conversion'', ''Purchase Share'']"

text \<open>A sheet is truthy when it is there and has at least one row.\<close>

fun truthy :: "sheet option \<Rightarrow> bool" where
  "truthy None = False"
| "truthy (Some []) = False"
| "truthy (Some (r # rs)) = True"

text \<open>\<^verbatim>\<open>row[i]\<close> and \<^verbatim>\<open>col_indices.get(name, default)\<close>\<close>

definition row_get :: "row \<Rightarrow> nat \<Rightarrow> py_error + cell" where
  "row_get r i = (if i < length r then Inr (r ! i) else Inl IndexError)"

definition col_get :: "(string \<times> nat) list \<Rightarrow> string \<Rightarrow> nat \<Rightarrow> nat" where
  "col_get ci name dflt = (case map_of ci name of Some i \<Rightarrow> i | None \<Rightarrow> dflt)"

definition field :: "env \<Rightarrow> row \<Rightarrow> string \<Rightarrow> nat \<Rightarrow> py_error + cell" where
  "field e r name dflt = row_get r (col_get (col_indices e) name dflt)"

definition or_None :: "string \<Rightarrow> string option" where
  "or_None s = (if s = [] then None else Some s)"

definition first_date :: "string list \<Rightarrow> string option" where
  "first_date ds = (if ds \<noteq> [] then Some (hd ds) else None)"

definition last_date :: "string list \<Rightarrow> string option" where
  "last_date ds = (if ds \<noteq> [] then Some (last ds) else None)"

text \<open>
  Both loops over the rows start with the same two statements (lines 254-255 and
  325-326): \<^verbatim>\<open>asin = _safe_str(row[...])\<close> and \<^verbatim>\<open>keyword_text = _safe_str(row[...])\<close>.
\<close>

definition row_ident :: "env \<Rightarrow> row \<Rightarrow> py_error + string \<times> string" where
  "row_ident e r =
     ebind (field e r ''ASIN'' 0) (\<lambda>c_asin.
     ebind (field e r ''Keyword'' 3) (\<lambda>c_keyword.
       Inr (safe_str c_asin, safe_str c_keyword)))"

subsection \<open>Step 1: keyword records\<close>

text \<open>The dict literal of lines 268-291; its values are evaluated in the order written.\<close>

definition build_kw_record :: "env \<Rightarrow> string \<Rightarrow> string \<Rightarrow> string \<Rightarrow> row \<Rightarrow> string \<Rightarrow> py_error + kw_record" where
  "build_kw_record e asin0 keyword_text tracked_val r ts =
     ebind (field e r ''SKU'' 1) (\<lambda>c_sku.
     ebind (field e r ''Title'' 2) (\<lambda>c_title.
     ebind (ebind (field e r ''Sales'' 5) safe_numeric) (\<lambda>v_sales.
     ebind (ebind (field e r ''ACOS'' 6) safe_numeric) (\<lambda>v_acos.
     ebind (ebind (field e r ''Conversion'' 7) safe_numeric) (\<lambda>v_conversion.
     ebind (ebind (field e r ''Spent'' 8) safe_numeric) (\<lambda>v_spent.
     ebind (ebind (field e r ''Orders'' 9) safe_int) (\<lambda>v_orders.
     ebind (ebind (field e r ''Units'' 10) safe_int) (\<lambda>v_units.
     ebind (ebind (field e r ''Clicks'' 11) safe_int) (\<lambda>v_clicks.
     ebind (ebind (field e r ''Query Volume'' 12) safe_int) (\<lambda>v_query_volume.
     ebind (ebind (field e r ''Conversion Delta'' 13) safe_numeric) (\<lambda>v_conversion_delta.
     ebind (ebind (field e r ''Market Conversion'' 14) safe_numeric) (\<lambda>v_market_conversion.
     ebind (ebind (field e r ''Asin Conversion'' 15) safe_numeric) (\<lambda>v_asin_conversion.
     ebind (ebind (field e r ''Purchase Share'' 16) safe_numeric) (\<lambda>v_purchase_share.
     Inr \<lparr> marketplace_id = env_marketplace_id e,
           child_asin = asin0,
           keyword = keyword_text,
           sku = or_None (safe_str c_sku),
           title = or_None (take 500 (safe_str c_title)),
           tracked = (tracked_val = ''yes''),
           sales = v_sales,
           acos = v_acos,
           conversion = v_conversion,
           spent = v_spent,
           orders = v_orders,
           units = v_units,
           clicks = v_clicks,
           query_volume = v_query_volume,
           conversion_delta = v_conversion_delta,
           market_conversion = v_market_conversion,
           asin_conversion = v_asin_conversion,
           purchase_share = v_purchase_share,
           metrics_period_start = first_date (sorted_dates e),
           metrics_period_end = last_date (sorted_dates e),
           import_id = env_import_id e,
           updated_at = ts \<rparr>))))))))))))))"

text \<open>
  The body of the loop over the rows of one sheet (lines 253-291). The state is the
  keyword map and the number of clock readings made so far.
\<close>

definition kw_row :: "(nat \<Rightarrow> string) \<Rightarrow> env \<Rightarrow> bool \<Rightarrow> row \<Rightarrow> keyword_map \<times> nat \<Rightarrow> py_error + keyword_map \<times> nat" where
  "kw_row clock e is_organic r st =
     (case st of (keyword_map, tick) \<Rightarrow>
       ebind (row_ident e r) (\<lambda>(asin0, keyword_text).
         if asin0 = [] \<or> keyword_text = [] then Inr st
         else let key = (py_upper asin0, py_lower keyword_text)
              in if \<not> is_organic \<and> map_of keyword_map key \<noteq> None then Inr st
                 else ebind (field e r ''Tracked'' 4) (\<lambda>c_tracked.
                      ebind (build_kw_record e asin0 keyword_text
                               (py_lower (safe_str c_tracked)) r (clock tick)) (\<lambda>rec.
                        Inr (AList.update key rec keyword_map, Suc tick)))))"

fun kw_rows :: "(nat \<Rightarrow> string) \<Rightarrow> env \<Rightarrow> bool \<Rightarrow> row list \<Rightarrow> keyword_map \<times> nat \<Rightarrow> py_error + keyword_map \<times> nat" where
  "kw_rows clock e is_organic [] st = Inr st"
| "kw_rows clock e is_organic (r # rs) st =
     ebind (kw_row clock e is_organic r st) (kw_rows clock e is_organic rs)"

text \<open>\<^verbatim>\<open>if not sheet_data: continue\<close>, then the rows after the header.\<close>

definition data_rows :: "sheet option \<Rightarrow> row list" where
  "data_rows sheet_data = (case sheet_data of None \<Rightarrow> [] | Some rs \<Rightarrow> tl rs)"

definition build_keyword_map :: "(nat \<Rightarrow> string) \<Rightarrow> env \<Rightarrow> sheet option \<Rightarrow> sheet option \<Rightarrow> py_error + keyword_map \<times> nat" where
  "build_keyword_map clock e sponsored_data organic_data =
     ebind (kw_rows clock e False (data_rows sponsored_data) ([], 0))
           (kw_rows clock e True (data_rows organic_data))"

subsection \<open>Retention filter\<close>

text \<open>\<^verbatim>\<open>x > 0\<close> on a float.\<close>

fun float_gt_zero :: "pyfloat \<Rightarrow> bool" where
  "float_gt_zero FNan = False"
| "float_gt_zero (FInf neg) = (\<not> neg)"
| "float_gt_zero (FFin q) = (0 < q)"

definition keep_keyword :: "kw_record \<Rightarrow> bool" where
  "keep_keyword kw = (tracked kw \<or> (spent kw \<noteq> None \<and> float_gt_zero (the (spent kw))))"

definition kw_key_of :: "kw_record \<Rightarrow> kw_key" where
  "kw_key_of kw = (py_upper (child_asin kw), py_lower (keyword kw))"

subsection \<open>Step 2: merged rank data\<close>

text \<open>Lines 333-336: the position of a date column.\<close>

definition date_index :: "env \<Rightarrow> string \<Rightarrow> nat option" where
  "date_index e date_col =
     (case map_of (col_indices e) date_col of
        Some i \<Rightarrow> Some i
      | None \<Rightarrow>
          (let original_col = (case map_of (date_col_map e) date_col of
                                 Some c \<Rightarrow> c | None \<Rightarrow> CStr date_col)
           in map_of (col_indices e) (py_str original_col)))"

definition new_rank_record :: "string \<Rightarrow> string \<Rightarrow> string \<Rightarrow> rank_record" where
  "new_rank_record asin0 keyword_text date_col =
     \<lparr> asin = asin0, rank_keyword = keyword_text, date = date_col,
       organic_rank = None, organic_out_of_range = False,
       sponsored_rank = None, sponsored_out_of_range = False \<rparr>"

text \<open>Lines 347-366: get or create the record of the key and write one facet.\<close>

definition store_rank :: "bool \<Rightarrow> string \<Rightarrow> string \<Rightarrow> string \<Rightarrow> int option \<Rightarrow> bool
    \<Rightarrow> rank_map \<times> nat \<times> nat \<Rightarrow> rank_map \<times> nat \<times> nat" where
  "store_rank is_organic asin0 keyword_text date_col rank is_oor st =
     (case st of (merged_ranks, organic_count, sponsored_count) \<Rightarrow>
       let key = (py_upper asin0, py_lower keyword_text, date_col);
           merged = (if map_of merged_ranks key = None
                     then AList.update key (new_rank_record asin0 keyword_text date_col) merged_ranks
                     else merged_ranks)
       in if is_organic
          then (AList.map_entry key
                  (\<lambda>r. r\<lparr>organic_rank := rank, organic_out_of_range := is_oor\<rparr>) merged,
                organic_count + 1, sponsored_count)
          else (AList.map_entry key
                  (\<lambda>r. r\<lparr>sponsored_rank := rank, sponsored_out_of_range := is_oor\<rparr>) merged,
                organic_count, sponsored_count + 1))"

text \<open>The body of the loop over the date columns (lines 331-366).\<close>

definition rank_cell :: "env \<Rightarrow> bool \<Rightarrow> string \<Rightarrow> string \<Rightarrow> row \<Rightarrow> string
    \<Rightarrow> rank_map \<times> nat \<times> nat \<Rightarrow> py_error + rank_map \<times> nat \<times> nat" where
  "rank_cell e is_organic asin0 keyword_text r date_col st =
     (case date_index e date_col of
        None \<Rightarrow> Inr st
      | Some date_idx \<Rightarrow>
          if length r \<le> date_idx then Inr st
          else ebind (parse_rank_value (r ! date_idx)) (\<lambda>(rank, is_oor).
                 if rank = None \<and> \<not> is_oor then Inr st
                 else Inr (store_rank is_organic asin0 keyword_text date_col rank is_oor st)))"

fun rank_dates :: "env \<Rightarrow> bool \<Rightarrow> string \<Rightarrow> string \<Rightarrow> row \<Rightarrow> string list
    \<Rightarrow> rank_map \<times> nat \<times> nat \<Rightarrow> py_error + rank_map \<times> nat \<times> nat" where
  "rank_dates e is_organic asin0 keyword_text r [] st = Inr st"
| "rank_dates e is_organic asin0 keyword_text r (date_col # ds) st =
     ebind (rank_cell e is_organic asin0 keyword_text r date_col st)
           (rank_dates e is_organic asin0 keyword_text r ds)"

text \<open>The body of the loop over the rows of one sheet (lines 324-366).\<close>

definition rank_row :: "env \<Rightarrow> bool \<Rightarrow> row \<Rightarrow> rank_map \<times> nat \<times> nat \<Rightarrow> py_error + rank_map \<times> nat \<times> nat" where
  "rank_row e is_organic r st =
     ebind (row_ident e r) (\<lambda>(asin0, keyword_text).
       if asin0 = [] \<or> keyword_text = [] then Inr st
       else rank_dates e is_organic asin0 keyword_text r (sorted_dates e) st)"

fun rank_rows :: "env \<Rightarrow> bool \<Rightarrow> row list \<Rightarrow> rank_map \<times> nat \<times> nat \<Rightarrow> py_error + rank_map \<times> nat \<times> nat" where
  "rank_rows e is_organic [] st = Inr st"
| "rank_rows e is_organic (r # rs) st = ebind (rank_row e is_organic r st) (rank_rows e is_organic rs)"

definition build_merged_ranks :: "env \<Rightarrow> sheet option \<Rightarrow> sheet option \<Rightarrow> py_error + rank_map \<times> nat \<times> nat" where
  "build_merged_ranks e organic_data sponsored_data =
     ebind (rank_rows e True (data_rows organic_data) ([], 0, 0))
           (rank_rows e False (data_rows sponsored_data))"

subsection \<open>Schema resolution and the whole of \<^verbatim>\<open>parse_excel\<close>\<close>

definition headers_of :: "row \<Rightarrow> string list" where
  "headers_of r = map (\<lambda>h. if h \<noteq> CNone then py_strip (py_str h) else []) r"

text \<open>Lines 207-209: \<^verbatim>\<open>for i, h in enumerate(headers): col_indices[h] = i\<close>\<close>

definition index_headers :: "string list \<Rightarrow> (string \<times> nat) list" where
  "index_headers headers = foldl (\<lambda>ci (i, h). AList.update h i ci) [] (enumerate 0 headers)"

text \<open>Lines 227-231.\<close>

definition add_date_columns :: "(string \<times> cell) list \<Rightarrow> (string \<times> nat) list \<Rightarrow> (string \<times> nat) list" where
  "add_date_columns dcm ci0 =
     foldl (\<lambda>ci (date_str, original_col).
              if map_of ci date_str = None
              then (case map_of ci (py_str original_col) of
                      Some i \<Rightarrow> AList.update date_str i ci
                    | None \<Rightarrow> ci)
              else ci) ci0 dcm"

definition sheet_by_name :: "workbook \<Rightarrow> string \<Rightarrow> sheet option" where
  "sheet_by_name wb name = (if name \<in> set (map fst wb) then map_of wb name else None)"

type_synonym parse_result = "kw_record list \<times> rank_map \<times> string list \<times> stats"

text \<open>Lines 175-233: the checks of the document, and the variables the loops read.\<close>

definition schema_env :: "workbook \<Rightarrow> string \<Rightarrow> string \<Rightarrow> py_error + env" where
  "schema_env wb marketplace import =
     (let sheet_names = map fst wb;
          organic_data = sheet_by_name wb ''Organic'';
          sponsored_data = sheet_by_name wb ''Sponsored''
      in if ''Organic'' \<notin> set sheet_names \<and> ''Sponsored'' \<notin> set sheet_names
         then Inl (ValueError (NoRankSheets sheet_names))
         else
          let primary_data = (if truthy organic_data then organic_data else sponsored_data)
          in if \<not> truthy primary_data \<or> length (the primary_data) < 2
             then Inl (ValueError PrimarySheetEmpty)
             else
              let headers = headers_of (hd (the primary_data));
                  ci0 = index_headers headers;
                  missing_cols = filter (\<lambda>fc. map_of ci0 fc = None) (take 5 FIXED_COLUMNS)
              in if missing_cols \<noteq> [] then Inl (ValueError (MissingColumns missing_cols))
                 else
                  let (date_columns, dcm) = detect_date_columns (map CStr headers)
                  in if date_columns = [] then Inl (ValueError NoDateColumns)
                     else Inr \<lparr> col_indices = add_date_columns dcm ci0,
                                date_col_map = dcm,
                                sorted_dates = sort date_columns,
                                env_marketplace_id = marketplace,
                                env_import_id = import \<rparr>)"

text \<open>Lines 293-307 and 373-392: the two filters and the result.\<close>

definition finish :: "env \<Rightarrow> keyword_map \<Rightarrow> rank_map \<times> nat \<times> nat \<Rightarrow> parse_result" where
  "finish e keyword_map ranks =
     (case ranks of (merged0, organic_count, sponsored_count) \<Rightarrow>
       let all_keywords = map snd keyword_map;
           keyword_records = filter keep_keyword all_keywords;
           filtered_count = length all_keywords - length keyword_records;
           kept_keyword_keys = set (map kw_key_of keyword_records);
           merged_ranks = filter (\<lambda>(k, v). (fst k, fst (snd k)) \<in> kept_keyword_keys) merged0
       in (keyword_records, merged_ranks, sorted_dates e,
           \<lparr> keyword_count = length keyword_records,
             keyword_total_parsed = length all_keywords,
             keyword_filtered = filtered_count,
             rank_entries = length merged_ranks,
             organic_ranks = organic_count,
             sponsored_ranks = sponsored_count,
             date_range_start = first_date (sorted_dates e),
             date_range_end = last_date (sorted_dates e),
             date_count = length (sorted_dates e) \<rparr>))"

definition parse_excel :: "(nat \<Rightarrow> string) \<Rightarrow> workbook \<Rightarrow> string \<Rightarrow> string \<Rightarrow> py_error + parse_result" where
  "parse_excel clock wb marketplace import =
     ebind (schema_env wb marketplace import) (\<lambda>e.
     ebind (build_keyword_map clock e (sheet_by_name wb ''Sponsored'') (sheet_by_name wb ''Organic''))
       (\<lambda>(keyword_map, ticks).
     ebind (build_merged_ranks e (sheet_by_name wb ''Organic'') (sheet_by_name wb ''Sponsored''))
       (\<lambda>ranks. Inr (finish e keyword_map ranks))))"

section \<open>Observations on rows, used to state the properties\<close>




section \<open>A sample document\<close>

text \<open>
  A workbook with the seventeen fixed columns and two date columns (not in ascending
  order). The organic sheet has the same product and search term twice, in different
  casing, then a product that is neither tracked nor paid for, then one with no spend
  value; the sponsored sheet has the first product again and a sponsored-only product
  twice.
\<close>

definition sample_row :: "string \<Rightarrow> string \<Rightarrow> string \<Rightarrow> string \<Rightarrow> cell \<Rightarrow> cell \<Rightarrow> cell \<Rightarrow> row" where
  "sample_row a t k tr sp d1 d2 =
     [CStr a, CStr ''sku'', CStr t, CStr k, CStr tr, CStr [], CStr [], CStr [], sp,
      CStr [], CStr [], CStr [], CStr [], CStr [], CStr [], CStr [], CStr [], d1, d2]"

definition sample_header :: row where
  "sample_header = map CStr (FIXED_COLUMNS @ [''2025-01-02'', ''2025-01-01''])"

definition sample_organic :: "row list" where
  "sample_organic =
     [sample_row ''b0abc'' ''Organic one'' ''Red Pen'' ''no'' (CFloat ''12.5'') (CStr ''97+'') (CFloat ''5.0''),
      sample_row ''B0ABC'' ''Organic two'' ''red pen'' ''no'' (CFloat ''12.5'') (CStr []) (CFloat ''7.0''),
      sample_row ''B0XYZ'' ''Other'' ''blue ink'' ''No'' (CFloat ''0.0'') (CStr ''3'') (CStr []),
      sample_row ''B0NIL'' ''Nothing'' ''paper'' ''no'' (CStr []) (CStr []) (CStr [])]"

definition sample_sponsored :: "row list" where
  "sample_sponsored =
     [sample_row ''B0ABC'' ''Sponsored'' ''RED PEN'' ''Yes'' (CStr []) (CStr ''2'') (CStr []),
      sample_row ''B0SPN'' ''First'' ''ink'' ''yes'' (CStr []) (CStr []) (CStr ''9''),
      sample_row ''b0spn'' ''Second'' ''INK'' ''no'' (CStr []) (CStr []) (CStr [])]"

definition sample_workbook :: workbook where
  "sample_workbook =
     [(''Organic'', sample_header # sample_organic),
      (''Sponsored'', sample_header # sample_sponsored)]"

definition sample_clock :: "nat \<Rightarrow> string" where
  "sample_clock n = ''2025-01-03T00:00:0'' @ str_nat n"

text \<open>What the parser computes for the sample document.\<close>

definition sample_env :: env where
  "sample_env =
     \<lparr> col_indices =
         [(''ASIN'', 0), (''SKU'', 1), (''Title'', 2), (''Keyword'', 3), (''Tracked'', 4),
          (''Sales'', 5), (''ACOS'', 6), (''Conversion'', 7), (''Spent'', 8), (''Orders'', 9),
          (''Units'', 10), (''Clicks'', 11), (''Query Volume'', 12), (''Conversion Delta'', 13),
          (''Market Conversion'', 14), (''Asin Conversion'', 15), (''Purchase Share'', 16),
          (''2025-01-02'', 17), (''2025-01-01'', 18)],
       date_col_map =
         [(''2025-01-02'', CStr ''2025-01-02''), (''2025-01-01'', CStr ''2025-01-01'')],
       sorted_dates = [''2025-01-01'', ''2025-01-02''],
       env_marketplace_id = ''mkt'',
       env_import_id = ''imp'' \<rparr>"

definition sample_kw :: "string \<Rightarrow> string \<Rightarrow> string \<Rightarrow> bool \<Rightarrow> pyfloat option \<Rightarrow> string \<Rightarrow> kw_record" where
  "sample_kw a k t tr sp ts =
     \<lparr> marketplace_id = ''mkt'', child_asin = a, keyword = k, sku = Some ''sku'',
       title = Some t, tracked = tr, sales = None, acos = None, conversion = None,
       spent = sp, orders = None, units = None, clicks = None, query_volume = None,
       conversion_delta = None, market_conversion = None, asin_conversion = None,
       purchase_share = None, metrics_period_start = Some ''2025-01-01'',
       metrics_period_end = Some ''2025-01-02'', import_id = ''imp'', updated_at = ts \<rparr>"

definition sample_red_pen :: kw_record where
  "sample_red_pen =
     sample_kw ''B0ABC'' ''red pen'' ''Organic two'' False (Some (FFin (25 / 2))) ''2025-01-03T00:00:03''"

definition sample_ink :: kw_record where
  "sample_ink = sample_kw ''B0SPN'' ''ink'' ''First'' True None ''2025-01-03T00:00:01''"

definition sample_blue_ink :: kw_record where
  "sample_blue_ink =
     sample_kw ''B0XYZ'' ''blue ink'' ''Other'' False (Some (FFin 0)) ''2025-01-03T00:00:04''"

definition sample_paper :: kw_record where
  "sample_paper = sample_kw ''B0NIL'' ''paper'' ''Nothing'' False None ''2025-01-03T00:00:05''"


definition sample_keyword_map :: keyword_map where
  "sample_keyword_map =
     [((''B0ABC'', ''red pen''), sample_red_pen),
      ((''B0SPN'', ''ink''), sample_ink),
      ((''B0XYZ'', ''blue ink''), sample_blue_ink),
      ((''B0NIL'', ''paper''), sample_paper)]"

definition sample_keywords :: "kw_record list" where
  "sample_keywords = [sample_red_pen, sample_ink]"

definition sample_ranks :: rank_map where
  "sample_ranks =
     [((''B0ABC'', ''red pen'', ''2025-01-01''),
       \<lparr> asin = ''b0abc'', rank_keyword = ''Red Pen'', date = ''2025-01-01'',
         organic_rank = Some 7, organic_out_of_range = False,
         sponsored_rank = None, sponsored_out_of_range = False \<rparr>),
      ((''B0ABC'', ''red pen'', ''2025-01-02''),
       \<lparr> asin = ''b0abc'', rank_keyword = ''Red Pen'', date = ''2025-01-02'',
         organic_rank = None, organic_out_of_range = True,
         sponsored_rank = Some 2, sponsored_out_of_range = False \<rparr>),
      ((''B0SPN'', ''ink'', ''2025-01-01''),
       \<lparr> asin = ''B0SPN'', rank_keyword = ''ink'', date = ''2025-01-01'',
         organic_rank = None, organic_out_of_range = False,
         sponsored_rank = Some 9, sponsored_out_of_range = False \<rparr>)]"

definition sample_stats :: stats where
  "sample_stats =
     \<lparr> keyword_count = 2, keyword_total_parsed = 4, keyword_filtered = 2,
       rank_entries = 3, organic_ranks = 4, sponsored_ranks = 2,
       date_range_start = Some ''2025-01-01'', date_range_end = Some ''2025-01-02'',
       date_count = 2 \<rparr>"

section \<open>Documents on which a cell aborts the run\<close>

text \<open>
  The sample header with one organic row whose \<^verbatim>\<open>Orders\<close> cell holds the text \<^verbatim>\<open>inf\<close>; and a
  sheet that has the five required columns and one date column, but no metric columns.
\<close>

definition overflow_workbook :: workbook where
  "overflow_workbook =
     [(''Organic'',
       [sample_header,
        (sample_row ''B0ABC'' ''Title'' ''red pen'' ''yes'' (CStr []) (CStr ''5'') (CStr []))
          [9 := CStr ''inf'']])]"

definition narrow_workbook :: workbook where
  "narrow_workbook =
     [(''Organic'',
       [map CStr [''ASIN'', ''SKU'', ''Title'', ''Keyword'', ''Tracked'', ''2025-01-01''],
        map CStr [''B0ABC'', ''sku'', ''Title'', ''red pen'', ''yes'', ''5'']])]"

section \<open>Results up to the time stamp\<close>

text \<open>The result with the field \<^verbatim>\<open>updated_at\<close> of every keyword record blanked.\<close>

definition blank_updated_at :: "kw_record \<Rightarrow> kw_record" where
  "blank_updated_at r = r\<lparr>updated_at := []\<rparr>"

definition erase_updated_at :: "parse_result \<Rightarrow> parse_result" where
  "erase_updated_at res = (case res of (krs, rest) \<Rightarrow> (map blank_updated_at krs, rest))"

definition later_clock :: "nat \<Rightarrow> string" where
  "later_clock n = ''2025-02-01T00:00:00''"

text \<open>The keyword map, and the state of the first loop, with the time stamps blanked.\<close>

definition strip_km :: "keyword_map \<Rightarrow> keyword_map" where
  "strip_km km = map (\<lambda>(k, r). (k, blank_updated_at r)) km"

definition strip_state :: "py_error + keyword_map \<times> nat \<Rightarrow> py_error + keyword_map \<times> nat" where
  "strip_state = map_sum id (\<lambda>(km, t). (strip_km km, t))"

section \<open>Observations on rank cells, used to state the properties\<close>





text \<open>The first of two optional values that is there.\<close>

definition or_else :: "'a option \<Rightarrow> 'a option \<Rightarrow> 'a option" where
  "or_else x y = (case x of None \<Rightarrow> y | Some v \<Rightarrow> Some v)"



section \<open>Properties of the cell classifier\<close>

lemma ebind_Inr_iff: "ebind m f = Inr y \<longleftrightarrow> (\<exists>v. m = Inr v \<and> f v = Inr y)"
  by (cases m) (simp_all add: ebind_def)

lemma ebind_Inr [simp]: "ebind (Inr v) f = f v"
  by (simp add: ebind_def)

lemma ebind_Inl [simp]: "ebind (Inl e) f = Inl e"
  by (simp add: ebind_def)

lemma except_value_type_Inr:
  "except_value_type body handler = Inr y \<Longrightarrow> body = Inr y \<or> handler = Inr y"
  by (auto simp: except_value_type_def split: sum.splits py_error.splits)

lemma parse_rank_value_shape:
  assumes "parse_rank_value v = Inr (r, oor)"
  shows "(r = None) \<or> (\<exists>n. r = Some n \<and> 1 \<le> n \<and> n \<le> 306 \<and> \<not> oor)"
  using assms
  by (auto simp: parse_rank_value_def Let_def ebind_Inr_iff
           dest!: except_value_type_Inr split: if_splits)

text \<open>
  C3: the classifier is not total. The text \<^verbatim>\<open>inf\<close> in a rank cell is accepted by
  \<^verbatim>\<open>float\<close>, and \<^verbatim>\<open>int\<close> of an infinity raises \<^verbatim>\<open>OverflowError\<close>, which the handler for
  \<^verbatim>\<open>(ValueError, TypeError)\<close> does not catch.
\<close>

theorem parse_rank_value_inf_raises:
  "parse_rank_value (CStr ''inf'') = Inl OverflowError"
  by code_simp

text \<open>
  C4: the worked examples of the classifier. \<^verbatim>\<open>"97+"\<close> is out of range, the empty string and
  \<^verbatim>\<open>None\<close> are no data, \<^verbatim>\<open>"42"\<close> is the rank 42; \<^verbatim>\<open>"150"\<close> lies inside the bound 306 and is
  the rank 150, not an out-of-range marker.
\<close>

theorem parse_rank_value_examples:
  "parse_rank_value (CStr ''97+'') = Inr (None, True)
   \<and> parse_rank_value (CStr []) = Inr (None, False)
   \<and> parse_rank_value CNone = Inr (None, False)
   \<and> parse_rank_value (CStr ''150'') = Inr (Some 150, False)
   \<and> parse_rank_value (CStr ''42'') = Inr (Some 42, False)"
  by code_simp

theorem parse_rank_value_150_counterexample:
  "parse_rank_value (CStr ''150'') \<noteq> Inr (None, True)"
  by code_simp

section \<open>Properties of the keyword map\<close>











section \<open>The sample document, evaluated\<close>

lemma sample_schema_env: "schema_env sample_workbook ''mkt'' ''imp'' = Inr sample_env"
  by code_simp


lemma sample_build_keyword_map:
  "build_keyword_map sample_clock sample_env (sheet_by_name sample_workbook ''Sponsored'')
     (sheet_by_name sample_workbook ''Organic'') = Inr (sample_keyword_map, 6)"
  by code_simp




lemma sample_parse_excel:
  "parse_excel sample_clock sample_workbook ''mkt'' ''imp''
     = Inr (sample_keywords, sample_ranks, [''2025-01-01'', ''2025-01-02''], sample_stats)"
  by code_simp


section \<open>Entity extraction and retention\<close>

lemma parse_excel_Inr:
  assumes "parse_excel clock wb m i = Inr res"
  obtains e km t ranks where
    "schema_env wb m i = Inr e"
    "build_keyword_map clock e (sheet_by_name wb ''Sponsored'') (sheet_by_name wb ''Organic'')
       = Inr (km, t)"
    "build_merged_ranks e (sheet_by_name wb ''Organic'') (sheet_by_name wb ''Sponsored'') = Inr ranks"
    "res = finish e km ranks"
  using assms by (auto simp: parse_excel_def ebind_Inr_iff)

lemma finish_keyword_records:
  "fst (finish e km ranks) = filter keep_keyword (map snd km)"
  by (cases ranks) (simp add: finish_def Let_def)







text \<open>
  C6: the returned keyword records are the extracted records, in order, that are tracked
  or have a spend value above zero; a record with no spend value, or with spend 0, that is
  not tracked is dropped.
\<close>

theorem retention_filter:
  assumes "schema_env wb m i = Inr e"
    and "parse_excel clock wb m i = Inr (krs, mr, ds, st)"
  shows "\<exists>km t.
           build_keyword_map clock e (sheet_by_name wb ''Sponsored'') (sheet_by_name wb ''Organic'')
             = Inr (km, t)
         \<and> krs = filter (\<lambda>kw. tracked kw \<or> (\<exists>q. spent kw = Some (FFin q) \<and> 0 < q)
                               \<or> spent kw = Some (FInf False)) (map snd km)"
proof -
  from assms(2) obtain e' km t ranks where
    e': "schema_env wb m i = Inr e'" and
    km: "build_keyword_map clock e' (sheet_by_name wb ''Sponsored'') (sheet_by_name wb ''Organic'')
           = Inr (km, t)" and
    res: "(krs, mr, ds, st) = finish e' km ranks"
    by (rule parse_excel_Inr)
  from e' assms(1) have [simp]: "e' = e" by simp
  from res have krs: "krs = filter keep_keyword (map snd km)"
    using finish_keyword_records[of e' km ranks] by (metis fst_conv)
  have "keep_keyword kw \<longleftrightarrow> tracked kw \<or> (\<exists>q. spent kw = Some (FFin q) \<and> 0 < q)
          \<or> spent kw = Some (FInf False)" for kw
  proof (cases "spent kw")
    case None
    then show ?thesis by (simp add: keep_keyword_def)
  next
    case (Some x)
    then show ?thesis by (cases x) (auto simp: keep_keyword_def)
  qed
  then have "keep_keyword = (\<lambda>kw. tracked kw \<or> (\<exists>q. spent kw = Some (FFin q) \<and> 0 < q)
                               \<or> spent kw = Some (FInf False))"
    by (intro ext)
  with krs km show ?thesis by auto
qed

theorem retention_filter_witness:
  "schema_env sample_workbook ''mkt'' ''imp'' = Inr sample_env
   \<and> parse_excel sample_clock sample_workbook ''mkt'' ''imp''
       = Inr (sample_keywords, sample_ranks, [''2025-01-01'', ''2025-01-02''], sample_stats)
   \<and> build_keyword_map sample_clock sample_env (sheet_by_name sample_workbook ''Sponsored'')
        (sheet_by_name sample_workbook ''Organic'') = Inr (sample_keyword_map, 6)
   \<and> sample_keywords
       = filter (\<lambda>kw. tracked kw \<or> (\<exists>q. spent kw = Some (FFin q) \<and> 0 < q)
                     \<or> spent kw = Some (FInf False)) (map snd sample_keyword_map)
   \<and> map snd sample_keyword_map = [sample_red_pen, sample_ink, sample_blue_ink, sample_paper]
   \<and> sample_keywords = [sample_red_pen, sample_ink]
   \<and> \<not> tracked sample_red_pen \<and> spent sample_red_pen = Some (FFin (25 / 2))
   \<and> \<not> tracked sample_blue_ink \<and> spent sample_blue_ink = Some (FFin 0)
   \<and> \<not> tracked sample_paper \<and> spent sample_paper = None"
proof -
  from retention_filter[OF sample_schema_env sample_parse_excel]
  have "sample_keywords
       = filter (\<lambda>kw. tracked kw \<or> (\<exists>q. spent kw = Some (FFin q) \<and> 0 < q)
                     \<or> spent kw = Some (FInf False)) (map snd sample_keyword_map)"
    by (simp add: sample_build_keyword_map)
  moreover have "map snd sample_keyword_map = [sample_red_pen, sample_ink, sample_blue_ink, sample_paper]"
    by (simp add: sample_keyword_map_def)
  moreover have "\<not> tracked sample_red_pen \<and> spent sample_red_pen = Some (FFin (25 / 2))
   \<and> \<not> tracked sample_blue_ink \<and> spent sample_blue_ink = Some (FFin 0)
   \<and> \<not> tracked sample_paper \<and> spent sample_paper = None"
    by (simp add: sample_red_pen_def sample_blue_ink_def sample_paper_def sample_kw_def)
  ultimately show ?thesis
    using sample_schema_env sample_parse_excel sample_build_keyword_map
    by (simp add: sample_keywords_def)
qed

section \<open>Errors that are not schema errors\<close>

lemma safe_int_inf: "safe_int (CStr ''inf'') = Inl OverflowError"
  by code_simp

text \<open>
  C5: a single cell can abort the run with an exception that is not a schema error: the
  text \<^verbatim>\<open>inf\<close> in the \<^verbatim>\<open>Orders\<close> column raises \<^verbatim>\<open>OverflowError\<close> out of \<^verbatim>\<open>_safe_int\<close>, and a
  sheet without the metric columns raises \<^verbatim>\<open>IndexError\<close> at the positional fallback.
\<close>

theorem parse_excel_cell_aborts:
  "parse_excel sample_clock overflow_workbook ''mkt'' ''imp'' = Inl OverflowError
   \<and> parse_excel sample_clock narrow_workbook ''mkt'' ''imp'' = Inl IndexError"
  by code_simp

section \<open>Repeated runs\<close>

lemma map_of_strip_km: "map_of (strip_km km) k = map_option blank_updated_at (map_of km k)"
  by (induction km) (auto simp: strip_km_def)

lemma strip_km_update:
  "strip_km (AList.update k r km) = AList.update k (blank_updated_at r) (strip_km km)"
  by (induction km) (auto simp: strip_km_def)

lemma map_sum_ebind: "map_sum id g (ebind m f) = ebind m (\<lambda>v. map_sum id g (f v))"
  by (cases m) simp_all

lemma build_kw_record_clock:
  "map_sum id blank_updated_at (build_kw_record e a k tv r ts1)
     = map_sum id blank_updated_at (build_kw_record e a k tv r ts2)"
  unfolding build_kw_record_def
  by (simp add: map_sum_ebind blank_updated_at_def)

lemma kw_row_clock:
  assumes "strip_km km1 = strip_km km2"
  shows "strip_state (kw_row c1 e org r (km1, t)) = strip_state (kw_row c2 e org r (km2, t))"
proof -
  have look: "map_of km1 k = None \<longleftrightarrow> map_of km2 k = None" for k
    using map_of_strip_km[of km1 k] map_of_strip_km[of km2 k] assms by (metis option.map_disc_iff)
  show ?thesis
  proof (cases "row_ident e r")
    case (Inl x)
    then show ?thesis by (simp add: kw_row_def strip_state_def)
  next
    case (Inr p)
    obtain a k where p: "p = (a, k)" by (cases p)
    show ?thesis
    proof (cases "field e r ''Tracked'' 4")
      case (Inl x)
      with Inr p assms look[of "(py_upper a, py_lower k)"] show ?thesis
        by (auto simp: kw_row_def strip_state_def Let_def)
    next
      case c: (Inr ct)
      from build_kw_record_clock[of e a k "py_lower (safe_str ct)" r "c1 t" "c2 t"]
      show ?thesis
        using Inr p c assms look[of "(py_upper a, py_lower k)"]
        by (cases "build_kw_record e a k (py_lower (safe_str ct)) r (c1 t)";
            cases "build_kw_record e a k (py_lower (safe_str ct)) r (c2 t)")
           (auto simp: kw_row_def strip_state_def Let_def strip_km_update)
    qed
  qed
qed

lemma kw_rows_clock:
  assumes "strip_km km1 = strip_km km2"
  shows "strip_state (kw_rows c1 e org rs (km1, t)) = strip_state (kw_rows c2 e org rs (km2, t))"
  using assms
proof (induction rs arbitrary: km1 km2 t)
  case Nil
  then show ?case by (simp add: strip_state_def)
next
  case (Cons r rs)
  from kw_row_clock[OF Cons.prems, of c1 e org r t c2]
  show ?case
  proof (cases "kw_row c1 e org r (km1, t)"; cases "kw_row c2 e org r (km2, t)")
    fix s1 s2 assume a: "kw_row c1 e org r (km1, t) = Inr s1" "kw_row c2 e org r (km2, t) = Inr s2"
      and b: "strip_state (kw_row c1 e org r (km1, t)) = strip_state (kw_row c2 e org r (km2, t))"
    obtain km1' t1 km2' t2 where s: "s1 = (km1', t1)" "s2 = (km2', t2)"
      by (cases s1, cases s2)
    with a b have "strip_km km1' = strip_km km2'" "t1 = t2"
      by (simp_all add: strip_state_def)
    with Cons.IH[of km1' km2' t1] a s show ?case by simp
  qed (auto simp: strip_state_def)
qed


lemma build_keyword_map_clock:
  "strip_state (build_keyword_map c1 e sp og) = strip_state (build_keyword_map c2 e sp og)"
proof -
  have a: "strip_state (kw_rows c1 e False (data_rows sp) ([], 0))
         = strip_state (kw_rows c2 e False (data_rows sp) ([], 0))"
    by (rule kw_rows_clock) simp
  show ?thesis
  proof (cases "kw_rows c1 e False (data_rows sp) ([], 0)";
         cases "kw_rows c2 e False (data_rows sp) ([], 0)")
    fix s1 s2
    assume b: "kw_rows c1 e False (data_rows sp) ([], 0) = Inr s1"
      "kw_rows c2 e False (data_rows sp) ([], 0) = Inr s2"
    obtain km1 t1 km2 t2 where s: "s1 = (km1, t1)" "s2 = (km2, t2)"
      by (cases s1, cases s2)
    with a b have "strip_km km1 = strip_km km2" "t1 = t2"
      by (simp_all add: strip_state_def)
    with kw_rows_clock[of km1 km2 c1 e True "data_rows og" t1 c2] b s show ?thesis
      by (simp add: build_keyword_map_def)
  qed (use a in \<open>auto simp: strip_state_def build_keyword_map_def\<close>)
qed

lemma keep_keyword_blank [simp]: "keep_keyword (blank_updated_at r) = keep_keyword r"
  by (simp add: keep_keyword_def blank_updated_at_def)

lemma kw_key_of_blank [simp]: "kw_key_of (blank_updated_at r) = kw_key_of r"
  by (simp add: kw_key_of_def blank_updated_at_def)

lemma map_snd_strip_km: "map snd (strip_km km) = map blank_updated_at (map snd km)"
  by (induction km) (auto simp: strip_km_def)

lemma filter_keep_blank:
  "filter keep_keyword (map blank_updated_at rs) = map blank_updated_at (filter keep_keyword rs)"
  by (induction rs) simp_all

lemma blank_idem [simp]: "blank_updated_at (blank_updated_at r) = blank_updated_at r"
  by (simp add: blank_updated_at_def)

lemma finish_cong:
  assumes "map blank_updated_at (filter keep_keyword (map snd km1))
             = map blank_updated_at (filter keep_keyword (map snd km2))"
    and "length km1 = length km2"
  shows "erase_updated_at (finish e km1 ranks) = erase_updated_at (finish e km2 ranks)"
proof -
  have len: "length (filter keep_keyword (map snd km1)) = length (filter keep_keyword (map snd km2))"
    using assms(1) by (metis length_map)
  have "map kw_key_of (map blank_updated_at ks) = map kw_key_of ks" for ks
    by simp
  with assms(1)
  have "map kw_key_of (filter keep_keyword (map snd km1))
          = map kw_key_of (filter keep_keyword (map snd km2))"
    by metis
  then have keys: "set (map kw_key_of (filter keep_keyword (map snd km1)))
          = set (map kw_key_of (filter keep_keyword (map snd km2)))"
    by simp
  obtain mr oc sc where r: "ranks = (mr, oc, sc)" by (cases ranks)
  show ?thesis
    unfolding r finish_def erase_updated_at_def Let_def prod.case
    by (simp only: keys len assms length_map)
qed

lemma finish_strip_km:
  "erase_updated_at (finish e (strip_km km) ranks) = erase_updated_at (finish e km ranks)"
proof (rule finish_cong)
  show "map blank_updated_at (filter keep_keyword (map snd (strip_km km)))
          = map blank_updated_at (filter keep_keyword (map snd km))"
    by (simp only: map_snd_strip_km filter_keep_blank) simp
  show "length (strip_km km) = length km"
    by (simp add: strip_km_def)
qed

text \<open>
  C8: two runs on the same document agree on everything but the time stamps: with the
  field \<^verbatim>\<open>updated_at\<close> blanked the results (or the errors) are equal, whatever the clock
  returns in each run.
\<close>

theorem parse_excel_deterministic_up_to_clock:
  "map_sum id erase_updated_at (parse_excel c1 wb m i)
     = map_sum id erase_updated_at (parse_excel c2 wb m i)"
proof (cases "schema_env wb m i")
  case (Inl x)
  then show ?thesis by (simp add: parse_excel_def)
next
  case (Inr e)
  let ?sp = "sheet_by_name wb ''Sponsored''" and ?og = "sheet_by_name wb ''Organic''"
  note a = build_keyword_map_clock[of c1 e ?sp ?og c2]
  show ?thesis
  proof (cases "build_keyword_map c1 e ?sp ?og"; cases "build_keyword_map c2 e ?sp ?og")
    fix s1 s2
    assume b: "build_keyword_map c1 e ?sp ?og = Inr s1" "build_keyword_map c2 e ?sp ?og = Inr s2"
    obtain km1 t1 km2 t2 where s: "s1 = (km1, t1)" "s2 = (km2, t2)"
      by (cases s1, cases s2)
    with a b have km: "strip_km km1 = strip_km km2"
      by (simp add: strip_state_def)
    show ?thesis
    proof (cases "build_merged_ranks e ?og ?sp")
      case (Inl x)
      with Inr b s show ?thesis by (simp add: parse_excel_def)
    next
      case r: (Inr ranks)
      from finish_strip_km[of e km1 ranks] finish_strip_km[of e km2 ranks] km
      have "erase_updated_at (finish e km1 ranks) = erase_updated_at (finish e km2 ranks)"
        by simp
      with Inr b s r show ?thesis by (simp add: parse_excel_def)
    qed
  qed (use a Inr in \<open>auto simp: strip_state_def parse_excel_def\<close>)
qed

theorem parse_excel_clock_counterexample:
  "parse_excel sample_clock sample_workbook ''mkt'' ''imp''
     \<noteq> parse_excel later_clock sample_workbook ''mkt'' ''imp''"
proof -
  have "map updated_at (fst (projr (parse_excel later_clock sample_workbook ''mkt'' ''imp'')))
          = [''2025-02-01T00:00:00'', ''2025-02-01T00:00:00'']"
    by code_simp
  moreover have "map updated_at (fst (projr (parse_excel sample_clock sample_workbook ''mkt'' ''imp'')))
          = [''2025-01-03T00:00:03'', ''2025-01-03T00:00:01'']"
    by (simp add: sample_parse_excel sample_keywords_def sample_red_pen_def sample_ink_def
          sample_kw_def)
  ultimately show ?thesis by auto
qed

section \<open>Properties of the merged rank data\<close>

lemma or_else_simps [simp]:
  "or_else None y = y" "or_else (Some v) y = Some v" "or_else x None = x"
  by (simp_all add: or_else_def split: option.splits)

lemma or_else_assoc: "or_else (or_else x y) z = or_else x (or_else y z)"
  by (simp add: or_else_def split: option.splits)

lemma or_else_eq_None [simp]: "or_else x y = None \<longleftrightarrow> x = None \<and> y = None"
  by (simp add: or_else_def split: option.splits)






















end
